theory Spec2Isabelle
  imports Complex_Main "HOL-Library.Sublist"
begin

section \<open>Data model\<close>

text \<open>
  The rows the panels work on are JSON objects sent by the server. A row is a record;
  a field the server may leave out (JavaScript \<open>undefined\<close>) or send as \<open>null\<close>
  is an \<open>option\<close>, \<open>None\<close> standing for both: the code below treats the two alike
  (both are falsy, and reading a property of either raises a TypeError).
  Strings are ASCII strings; numbers are the finite values of JavaScript's doubles,
  written as rationals. The field \<open>id\<close> of a row is \<open>item_id\<close>. Of a project's nested
  collections only the change orders are kept, and of a change order only what the
  detail panel's colour test reads.
\<close>

datatype js_error = TypeError

record entity =
  item_id :: int

record change_order = entity +
  amount :: rat
  project_id :: int

record project = entity +
  name :: "string option"
  description :: "string option"
  budget :: "rat option"
  actual_cost :: "rat option"
  location :: "string option"
  status :: "string option"
  phase :: "string option"
  progress :: "int option"
  change_orders :: "change_order list"

section \<open>Strings\<close>

text \<open>
  \<open>String.prototype.toLowerCase\<close>. On ASCII text, the text the properties below are stated
  for, it replaces each of the letters A to Z by its small letter and keeps every other
  character.
\<close>

definition toLowerCase_char :: "char \<Rightarrow> char" where
  "toLowerCase_char c =
     (case map_of (zip ''ABCDEFGHIJKLMNOPQRSTUVWXYZ'' ''abcdefghijklmnopqrstuvwxyz'') c of
        Some l \<Rightarrow> l
      | None \<Rightarrow> c)"

definition toLowerCase :: "string \<Rightarrow> string" where
  "toLowerCase s = map toLowerCase_char s"

text \<open>\<open>s.includes(t)\<close>: \<open>t\<close> occurs in \<open>s\<close> at some position.\<close>

fun str_includes :: "string \<Rightarrow> string \<Rightarrow> bool" where
  "str_includes [] t = (t = [])"
| "str_includes (c # s) t = (prefix t (c # s) \<or> str_includes s t)"

text \<open>
  The specification's words, "contains \<open>t\<close> as a case-insensitive substring", said without
  the function above. Two characters are the same letter when they are equal or one is
  a capital, code 65 to 90, and the other its small letter, 32 codes further; \<open>t\<close> is a
  case-insensitive substring of \<open>s\<close> when some contiguous piece of \<open>s\<close> is \<open>t\<close>, letter
  by letter.
\<close>

definition capital :: "char \<Rightarrow> bool" where
  "capital c \<longleftrightarrow> 65 \<le> (of_char c :: nat) \<and> (of_char c :: nat) \<le> 90"

definition same_letter :: "char \<Rightarrow> char \<Rightarrow> bool" where
  "same_letter a b \<longleftrightarrow>
     a = b \<or>
     capital a \<and> (of_char b :: nat) = of_char a + 32 \<or>
     capital b \<and> (of_char a :: nat) = of_char b + 32"

definition ci_substring :: "string \<Rightarrow> string \<Rightarrow> bool" where
  "ci_substring t s \<longleftrightarrow> (\<exists>pre u suf. s = pre @ u @ suf \<and> list_all2 same_letter u t)"


section \<open>Projects panel: the client-side filter (ProjectsView.js, filteredProjects)\<close>

text \<open>
  \<open>Array.prototype.filter\<close> with a callback that may throw: the elements are visited in
  order and the first exception ends the whole call.
\<close>

fun filter_js :: "('a \<Rightarrow> js_error + bool) \<Rightarrow> 'a list \<Rightarrow> js_error + 'a list" where
  "filter_js f [] = Inr []"
| "filter_js f (x # xs) =
     (case f x of
        Inl e \<Rightarrow> Inl e
      | Inr b \<Rightarrow>
          (case filter_js f xs of
             Inl e \<Rightarrow> Inl e
           | Inr ys \<Rightarrow> Inr (if b then x # ys else ys)))"

text \<open>
  \<open>project.name.toLowerCase()\<close> is called unguarded and raises when the name is missing;
  \<open>project.location && ...\<close> guards the location: a missing, null or empty location is falsy.
\<close>

definition matchesSearch :: "string \<Rightarrow> project \<Rightarrow> js_error + bool" where
  "matchesSearch searchTerm p =
     (case name p of
        None \<Rightarrow> Inl TypeError
      | Some n \<Rightarrow>
          Inr (str_includes (toLowerCase n) (toLowerCase searchTerm) \<or>
               (case location p of
                  None \<Rightarrow> False
                | Some l \<Rightarrow> l \<noteq> [] \<and> str_includes (toLowerCase l) (toLowerCase searchTerm))))"

definition matchesFilter :: "string \<Rightarrow> project \<Rightarrow> bool" where
  "matchesFilter filterStatus p \<longleftrightarrow> filterStatus = ''all'' \<or> status p = Some filterStatus"

definition filter_callback :: "string \<Rightarrow> string \<Rightarrow> project \<Rightarrow> js_error + bool" where
  "filter_callback searchTerm filterStatus p =
     (case matchesSearch searchTerm p of
        Inl e \<Rightarrow> Inl e
      | Inr ms \<Rightarrow> Inr (ms \<and> matchesFilter filterStatus p))"

definition filteredProjects ::
  "project list option \<Rightarrow> string \<Rightarrow> string \<Rightarrow> js_error + project list" where
  "filteredProjects initialProjects searchTerm filterStatus =
     (case initialProjects of
        None \<Rightarrow> Inr []
      | Some ps \<Rightarrow> filter_js (filter_callback searchTerm filterStatus) ps)"

text \<open>The filter the specification describes, in its own words.\<close>

definition spec_search :: "string \<Rightarrow> project \<Rightarrow> bool" where
  "spec_search t p \<longleftrightarrow>
     (\<exists>n. name p = Some n \<and> ci_substring t n) \<or>
     (\<exists>l. location p = Some l \<and> ci_substring t l)"


section \<open>Network calls and the events a handler causes\<close>

text \<open>
  A form's data is a JavaScript object: a finite map from field names to values. The
  values a form holds are strings and numbers.
\<close>

datatype jsval = Str string | Num rat

type_synonym formdata = "string \<rightharpoonup> jsval"

text \<open>
  The calls made through the axios instance \<open>api\<close>. The path of a row is the collection's
  path followed by the row's id, kept here as a pair. A call either resolves with the
  response body or is rejected; a rejection carries the server's response (its status
  and the \<open>error\<close> string of its body, when there is one) or nothing when no response
  arrived.
\<close>

datatype request =
    GET string
  | POST string formdata
  | PUT string int formdata
  | DELETE string int

datatype err_response = ErrResponse (resp_status: int) (resp_error: "string option")

datatype 'a response = Resolved 'a | Rejected "err_response option"

text \<open>What the user and the network see of a handler, in the order it happens.\<close>

datatype event =
    Confirm string
  | Call request
  | ConsoleError string
  | Alert string

section \<open>The resource fetch hook (useData)\<close>

record 'a useData_state =
  data :: "'a list"
  loading :: bool
  error :: "string option"

definition useData_init :: "'a useData_state" where
  "useData_init = \<lparr>data = [], loading = True, error = None\<rparr>"

text \<open>The \<open>catch\<close> branch of \<open>fetchData\<close>: the message chosen from the rejection.\<close>

definition fetch_error_message :: "string \<Rightarrow> err_response option \<Rightarrow> string" where
  "fetch_error_message endpoint err =
     (if map_option resp_status err = Some 401 then
        ''Authentication failed. Your session may have expired.''
      else if map_option resp_status err = Some 422 then
        ''Invalid request format for '' @ endpoint @ ''.''
      else
        ''Failed to fetch '' @ endpoint @ ''. '' @
        (case Option.bind err resp_error of
           None \<Rightarrow> ''Please try again.''
         | Some s \<Rightarrow> if s \<noteq> [] then s else ''Please try again.''))"

text \<open>
  The effect of the hook, run for one value of \<open>endpoint\<close>. A missing (or empty) endpoint
  is falsy: loading is cleared and nothing is fetched.
\<close>

definition useData_effect ::
  "(request \<Rightarrow> 'a list response) \<Rightarrow> string option \<Rightarrow>
   ('a, 'z) useData_state_scheme \<Rightarrow> ('a, 'z) useData_state_scheme \<times> event list" where
  "useData_effect api endpoint st =
     (case endpoint of
        None \<Rightarrow> (st\<lparr>loading := False\<rparr>, [])
      | Some e \<Rightarrow>
          if e = [] then (st\<lparr>loading := False\<rparr>, [])
          else
            (case api (GET e) of
               Resolved d \<Rightarrow>
                 (st\<lparr>data := d, error := None, loading := False\<rparr>, [Call (GET e)])
             | Rejected err \<Rightarrow>
                 (st\<lparr>error := Some (fetch_error_message e err), loading := False\<rparr>,
                  [Call (GET e), ConsoleError (''Error fetching '' @ e @ '':'')])))"

section \<open>The generic CRUD panel (CrudView.js)\<close>

record 'a crud_state = "'a useData_state" +
  showForm :: bool
  editingItem :: "'a option"
  formData :: formdata

text \<open>The three updaters handed to \<open>setData\<close> / \<open>setProjects\<close>; \<open>prev\<close> is the list they are applied to.\<close>

definition replace_item :: "'a entity_scheme \<Rightarrow> 'a entity_scheme \<Rightarrow> 'a entity_scheme list \<Rightarrow> 'a entity_scheme list" where
  "replace_item editing r prev = map (\<lambda>item. if item_id item = item_id editing then r else item) prev"

definition prepend_item :: "'a \<Rightarrow> 'a list \<Rightarrow> 'a list" where
  "prepend_item r prev = r # prev"

definition remove_item :: "int \<Rightarrow> 'a entity_scheme list \<Rightarrow> 'a entity_scheme list" where
  "remove_item itemId prev = filter (\<lambda>item. item_id item \<noteq> itemId) prev"

text \<open>\<open>title.slice(0, -1)\<close>: the title without its last character.\<close>

definition singular :: "string \<Rightarrow> string" where
  "singular title = butlast title"

definition handleSubmit ::
  "string \<Rightarrow> string \<Rightarrow> (request \<Rightarrow> 'a entity_scheme response) \<Rightarrow>
   'a entity_scheme crud_state \<Rightarrow> 'a entity_scheme crud_state \<times> event list" where
  "handleSubmit title endpoint api st =
     (case editingItem st of
        Some editing \<Rightarrow>
          (case api (PUT endpoint (item_id editing) (formData st)) of
             Resolved r \<Rightarrow>
               (st\<lparr>data := replace_item editing r (data st), showForm := False\<rparr>,
                [Call (PUT endpoint (item_id editing) (formData st))])
           | Rejected err \<Rightarrow>
               (st,
                [Call (PUT endpoint (item_id editing) (formData st)),
                 ConsoleError (''Failed to save '' @ title @ '':''),
                 Alert (''Error: Could not save the '' @ singular title @ ''.'')]))
      | None \<Rightarrow>
          (case api (POST endpoint (formData st)) of
             Resolved r \<Rightarrow>
               (st\<lparr>data := prepend_item r (data st), showForm := False\<rparr>,
                [Call (POST endpoint (formData st))])
           | Rejected err \<Rightarrow>
               (st,
                [Call (POST endpoint (formData st)),
                 ConsoleError (''Failed to save '' @ title @ '':''),
                 Alert (''Error: Could not save the '' @ singular title @ ''.'')])))"

definition delete_item_prompt :: string where
  "delete_item_prompt = ''Are you sure you want to delete this item?''"

definition handleDelete ::
  "string \<Rightarrow> string \<Rightarrow> (string \<Rightarrow> bool) \<Rightarrow> (request \<Rightarrow> 'b response) \<Rightarrow> int \<Rightarrow>
   'a entity_scheme crud_state \<Rightarrow> 'a entity_scheme crud_state \<times> event list" where
  "handleDelete title endpoint confirm api itemId st =
     (if confirm delete_item_prompt then
        (case api (DELETE endpoint itemId) of
           Resolved r \<Rightarrow>
             (st\<lparr>data := remove_item itemId (data st)\<rparr>,
              [Confirm delete_item_prompt,
               Call (DELETE endpoint itemId)])
         | Rejected err \<Rightarrow>
             (st,
              [Confirm delete_item_prompt,
               Call (DELETE endpoint itemId),
               ConsoleError (''Failed to delete '' @ title @ '':''),
               Alert (''Error: Could not delete the '' @ singular title @ ''.'')]))
      else (st, [Confirm delete_item_prompt]))"

section \<open>The Projects panel's handlers (ProjectsView.js)\<close>

text \<open>
  The panel's list is the \<open>projects\<close> of the root component, changed through
  \<open>setProjects\<close>; it is the \<open>data\<close> of the state below, \<open>editingProject\<close> is its
  \<open>editingItem\<close> and \<open>projectFormData\<close> its \<open>formData\<close>.
\<close>

definition handleFormSubmit ::
  "(request \<Rightarrow> project response) \<Rightarrow> project crud_state \<Rightarrow> project crud_state \<times> event list" where
  "handleFormSubmit api st =
     (case editingItem st of
        Some editingProject \<Rightarrow>
          (case api (PUT ''/projects'' (item_id editingProject) (formData st)) of
             Resolved r \<Rightarrow>
               (st\<lparr>data := replace_item editingProject r (data st), showForm := False\<rparr>,
                [Call (PUT ''/projects'' (item_id editingProject) (formData st))])
           | Rejected err \<Rightarrow>
               (st,
                [Call (PUT ''/projects'' (item_id editingProject) (formData st)),
                 ConsoleError ''Failed to save project:'',
                 Alert ''Error: Could not save the project.'']))
      | None \<Rightarrow>
          (case api (POST ''/projects'' (formData st)) of
             Resolved r \<Rightarrow>
               (st\<lparr>data := prepend_item r (data st), showForm := False\<rparr>,
                [Call (POST ''/projects'' (formData st))])
           | Rejected err \<Rightarrow>
               (st,
                [Call (POST ''/projects'' (formData st)),
                 ConsoleError ''Failed to save project:'',
                 Alert ''Error: Could not save the project.''])))"

definition delete_project_prompt :: string where
  "delete_project_prompt =
     ''Are you sure you want to delete this project? This action cannot be undone.''"

definition handleDeleteProject ::
  "(string \<Rightarrow> bool) \<Rightarrow> (request \<Rightarrow> 'b response) \<Rightarrow> int \<Rightarrow>
   project crud_state \<Rightarrow> project crud_state \<times> event list" where
  "handleDeleteProject confirm api projectId st =
     (if confirm delete_project_prompt then
        (case api (DELETE ''/projects'' projectId) of
           Resolved r \<Rightarrow>
             (st\<lparr>data := remove_item projectId (data st)\<rparr>,
              [Confirm delete_project_prompt,
               Call (DELETE ''/projects'' projectId)])
         | Rejected err \<Rightarrow>
             (st,
              [Confirm delete_project_prompt,
               Call (DELETE ''/projects'' projectId),
               ConsoleError ''Failed to delete project:'',
               Alert ''Error: Could not delete the project.'']))
      else (st, [Confirm delete_project_prompt]))"

section \<open>The Projects panel's form (ProjectsView.js)\<close>

text \<open>
  The form data a new form starts from: the initial value of \<open>projectFormData\<close>, which
  \<open>openForm()\<close> installs again for each new project.
\<close>

definition projectFormData_initial :: formdata where
  "projectFormData_initial =
     [''name'' \<mapsto> Str [], ''description'' \<mapsto> Str [], ''budget'' \<mapsto> Str [],
      ''location'' \<mapsto> Str [], ''status'' \<mapsto> Str ''planning'', ''progress'' \<mapsto> Num 0]"

text \<open>
  The controls that the form renders, in their order, the field each one shows
  (\<open>value={projectFormData.name}\<close> and so on) and its \<open>onChange\<close> handler. The budget's
  handler stores \<open>parseFloat(e.target.value) || 0\<close>; \<open>parseFloat\<close> is the platform's, taken
  as a parameter that returns \<open>None\<close> for NaN.
\<close>

datatype form_input = NameInput | DescriptionInput | LocationInput | BudgetInput

definition project_form_inputs :: "form_input list" where
  "project_form_inputs = [NameInput, DescriptionInput, LocationInput, BudgetInput]"

fun input_field :: "form_input \<Rightarrow> string" where
  "input_field NameInput = ''name''"
| "input_field DescriptionInput = ''description''"
| "input_field LocationInput = ''location''"
| "input_field BudgetInput = ''budget''"

fun onChange :: "(string \<Rightarrow> rat option) \<Rightarrow> form_input \<Rightarrow> string \<Rightarrow> formdata \<Rightarrow> formdata" where
  "onChange parseFloat NameInput v fd = fd(''name'' \<mapsto> Str v)"
| "onChange parseFloat DescriptionInput v fd = fd(''description'' \<mapsto> Str v)"
| "onChange parseFloat LocationInput v fd = fd(''location'' \<mapsto> Str v)"
| "onChange parseFloat BudgetInput v fd =
     fd(''budget'' \<mapsto> Num (case parseFloat v of None \<Rightarrow> 0 | Some x \<Rightarrow> x))"

section \<open>The root component (App)\<close>

record app_state =
  isAuthenticated :: bool
  activeSection :: string
  selectedProjectId :: "int option"

text \<open>
  The elements the root component returns: the login form alone, or the layout (sidebar
  and main area) with the content of the main area.
\<close>

datatype content =
    LoadingProjectDetails
  | ProjectDetailView_element project
  | DashboardView_element
  | ProjectsView_element
  | CrudView_element string string

datatype screen = LoginForm_element | Layout content

text \<open>The \<open>switch\<close> over the active section; the second component of a CRUD view is its endpoint.\<close>

definition section_content :: "string \<Rightarrow> content" where
  "section_content s =
     (if s = ''dashboard'' then DashboardView_element
      else if s = ''projects'' then ProjectsView_element
      else if s = ''documents'' then CrudView_element ''Documents'' ''documents''
      else if s = ''preconstruction'' then CrudView_element ''Bids'' ''bids''
      else if s = ''financials'' then CrudView_element ''Change Orders'' ''change_orders''
      else if s = ''quality-safety'' then CrudView_element ''Inspections'' ''inspections''
      else DashboardView_element)"

text \<open>\<open>if (selectedProjectId)\<close>: \<open>null\<close> and the id 0 are falsy.\<close>

definition renderContent :: "app_state \<Rightarrow> project list \<Rightarrow> content" where
  "renderContent st projects =
     (case selectedProjectId st of
        None \<Rightarrow> section_content (activeSection st)
      | Some k \<Rightarrow>
          if k = 0 then section_content (activeSection st)
          else
            (case find (\<lambda>p. item_id p = k) projects of
               None \<Rightarrow> LoadingProjectDetails
             | Some selectedProject \<Rightarrow> ProjectDetailView_element selectedProject))"

text \<open>The argument of \<open>useData\<close> in \<open>App\<close>: \<open>isAuthenticated ? 'projects' : null\<close>.\<close>

definition App_endpoint :: "app_state \<Rightarrow> string option" where
  "App_endpoint st = (if isAuthenticated st then Some ''projects'' else None)"

definition App :: "app_state \<Rightarrow> project list \<Rightarrow> screen" where
  "App st projects =
     (if \<not> isAuthenticated st then LoginForm_element
      else Layout (renderContent st projects))"

section \<open>Numbers\<close>

text \<open>
  A JavaScript number is a double. A finite double is written as the rational it denotes,
  and an arithmetic operation returns the exact result rounded to the nearest number
  with 53 significant bits, ties to the even one (\<open>fl\<close>). The exponent is not bounded
  here: overflow to Infinity and the subnormal range are outside the model, as are NaN
  and the infinities.
\<close>

function bit_length :: "int \<Rightarrow> nat" where
  "bit_length n = (if n \<le> 0 then 0 else Suc (bit_length (n div 2)))"
  by pat_completeness auto
termination
  by (relation "measure nat") auto

declare bit_length.simps [simp del]

text \<open>For \<open>q > 0\<close>, the exponent \<open>e\<close> with \<open>2^e \<le> q < 2^(e+1)\<close>.\<close>

definition ilog2 :: "rat \<Rightarrow> int" where
  "ilog2 q =
     (if 1 \<le> q then int (bit_length \<lfloor>q\<rfloor>) - 1
      else - int (bit_length (\<lceil>1 / q\<rceil> - 1)))"

definition round_half_even :: "rat \<Rightarrow> int" where
  "round_half_even y =
     (let n = \<lfloor>y\<rfloor>; d = y - of_int n
      in if d < 1 / 2 then n
         else if 1 / 2 < d then n + 1
         else if even n then n else n + 1)"

definition fl :: "rat \<Rightarrow> rat" where
  "fl q =
     (if q = 0 then 0
      else
        let e = ilog2 \<bar>q\<bar> - 52
        in sgn q * of_int (round_half_even (\<bar>q\<bar> / power_int 2 e)) * power_int 2 e)"


definition js_sub :: "rat \<Rightarrow> rat \<Rightarrow> rat" where
  "js_sub x y = fl (x - y)"






section \<open>The dashboard (DashboardView)\<close>













section \<open>The project detail panel (ProjectDetailView.js)\<close>

text \<open>
  The colour class of the variance line of the summary tab, the part of its \<open>className\<close>
  that the condition chooses. The two lines before it call \<open>toLocaleString\<close> on the
  budget and on the actual cost, which raises when either is missing.
\<close>

definition variance_class :: "project \<Rightarrow> js_error + string" where
  "variance_class p =
     (case budget p of
        None \<Rightarrow> Inl TypeError
      | Some b \<Rightarrow>
          (case actual_cost p of
             None \<Rightarrow> Inl TypeError
           | Some c \<Rightarrow>
               Inr (if 0 \<le> js_sub b c then ''text-green-600'' else ''text-red-600'')))"

text \<open>The border classes of a change order's row in the financials tab, chosen likewise.\<close>

definition change_order_class :: "change_order \<Rightarrow> string" where
  "change_order_class c =
     (if 0 \<le> amount c then ''border-l-4 border-green-500'' else ''border-l-4 border-red-500'')"

section \<open>Example data\<close>

definition example_tower :: project where
  "example_tower =
     \<lparr>item_id = 1, name = Some ''Harbor Tower'', description = Some ''Offices'',
      budget = Some 1500000, actual_cost = Some 700000, location = Some ''Boston'',
      status = Some ''active'', phase = Some ''Structure'', progress = Some 40,
      change_orders = []\<rparr>"

definition example_bridge :: project where
  "example_bridge =
     \<lparr>item_id = 2, name = Some ''River Bridge'', description = None,
      budget = Some 1000000, actual_cost = Some 500000, location = None,
      status = Some ''planning'', phase = None, progress = Some 0,
      change_orders = []\<rparr>"

definition example_nameless :: project where
  "example_nameless =
     \<lparr>item_id = 3, name = None, description = None,
      budget = None, actual_cost = None, location = Some ''Towerville'',
      status = Some ''active'', phase = None, progress = None,
      change_orders = []\<rparr>"

definition example_crud_state :: "project crud_state" where
  "example_crud_state =
     \<lparr>data = [example_tower, example_bridge], loading = False, error = None,
      showForm = True, editingItem = Some example_bridge,
      formData = [''name'' \<mapsto> Str ''River Bridge II'']\<rparr>"

definition example_updated :: project where
  "example_updated = example_bridge\<lparr>name := Some ''River Bridge II''\<rparr>"

definition example_created :: project where
  "example_created =
     \<lparr>item_id = 4, name = Some ''Depot'', description = None,
      budget = Some 250000, actual_cost = None, location = Some ''Salem'',
      status = Some ''planning'', phase = None, progress = Some 0,
      change_orders = []\<rparr>"

definition example_api :: "request \<Rightarrow> project response" where
  "example_api rq =
     (case rq of
        GET path \<Rightarrow> Rejected None
      | POST path body \<Rightarrow> Resolved example_created
      | PUT path k body \<Rightarrow> Resolved example_updated
      | DELETE path k \<Rightarrow> Resolved example_created)"

definition failing_api :: "request \<Rightarrow> 'a response" where
  "failing_api rq = Rejected (Some (ErrResponse 500 (Some ''database is down'')))"

definition example_app_state :: app_state where
  "example_app_state =
     \<lparr>isAuthenticated = False, activeSection = ''projects'', selectedProjectId = Some 2\<rparr>"

definition example_fetch_api :: "request \<Rightarrow> project list response" where
  "example_fetch_api rq = Resolved [example_tower, example_bridge]"

definition example_change_order :: change_order where
  "example_change_order = \<lparr>item_id = 11, amount = 0, project_id = 1\<rparr>"

definition example_on_budget :: project where
  "example_on_budget = example_tower\<lparr>actual_cost := Some 1500000\<rparr>"

definition example_parseFloat :: "string \<Rightarrow> rat option" where
  "example_parseFloat v = (if v = ''1200000'' then Some 1200000 else None)"



section \<open>Lemmas on strings and on the filter\<close>

lemma includes_sublist: "str_includes s t \<longleftrightarrow> sublist t s"
  by (induction s) (auto simp: sublist_Cons_right)

text \<open>The function of the code agrees with the specification's notion of a letter.\<close>

lemma capital_iff: "capital c \<longleftrightarrow> c \<in> set ''ABCDEFGHIJKLMNOPQRSTUVWXYZ''"
proof
  assume "capital c"
  then have "65 \<le> (of_char c :: nat)" "(of_char c :: nat) \<le> 90"
    by (simp_all add: capital_def)
  then have "(of_char c :: nat) \<in> set [65..<91]" by simp arith
  also have "set [65..<91] = (of_char ` set ''ABCDEFGHIJKLMNOPQRSTUVWXYZ'' :: nat set)"
    by simp
  finally obtain u where "u \<in> set ''ABCDEFGHIJKLMNOPQRSTUVWXYZ''" "(of_char c :: nat) = of_char u"
    by blast
  then show "c \<in> set ''ABCDEFGHIJKLMNOPQRSTUVWXYZ''" by simp
next
  assume "c \<in> set ''ABCDEFGHIJKLMNOPQRSTUVWXYZ''"
  then show "capital c" by (auto simp: capital_def)
qed

lemma toLowerCase_char_code:
  "(of_char (toLowerCase_char c) :: nat) = (if capital c then of_char c + 32 else of_char c)"
proof (cases "capital c")
  case True
  then have "c \<in> set ''ABCDEFGHIJKLMNOPQRSTUVWXYZ''" using capital_iff by blast
  then show ?thesis using True by (auto simp: toLowerCase_char_def)
next
  case False
  then have "c \<notin> set ''ABCDEFGHIJKLMNOPQRSTUVWXYZ''" using capital_iff by blast
  then have "toLowerCase_char c = c" by (simp add: toLowerCase_char_def)
  with False show ?thesis by simp
qed

lemma toLowerCase_char_eq_iff:
  "toLowerCase_char a = toLowerCase_char b \<longleftrightarrow> same_letter a b"
proof -
  have "toLowerCase_char a = toLowerCase_char b \<longleftrightarrow>
        (of_char (toLowerCase_char a) :: nat) = of_char (toLowerCase_char b)"
    by simp
  also have "\<dots> \<longleftrightarrow> same_letter a b"
  proof -
    have eq: "a = b \<longleftrightarrow> (of_char a :: nat) = of_char b" by simp
    show ?thesis
      unfolding toLowerCase_char_code same_letter_def eq
      by (auto simp: capital_def)
  qed
  finally show ?thesis .
qed

lemma map_toLowerCase_eq_iff:
  "map toLowerCase_char u = map toLowerCase_char t \<longleftrightarrow> list_all2 same_letter u t"
proof -
  have "map toLowerCase_char u = map toLowerCase_char t \<longleftrightarrow>
        list_all2 (=) (map toLowerCase_char u) (map toLowerCase_char t)"
    by (simp only: list_all2_eq)
  also have "\<dots> \<longleftrightarrow> list_all2 (\<lambda>a b. toLowerCase_char a = toLowerCase_char b) u t"
    by (simp only: list_all2_map1 list_all2_map2)
  also have "\<dots> \<longleftrightarrow> list_all2 same_letter u t"
    by (simp only: toLowerCase_char_eq_iff)
  finally show ?thesis .
qed

lemma includes_ci_substring:
  "str_includes (toLowerCase s) (toLowerCase t) \<longleftrightarrow> ci_substring t s"
proof
  assume "str_includes (toLowerCase s) (toLowerCase t)"
  then obtain ps ss where "map toLowerCase_char s = ps @ map toLowerCase_char t @ ss"
    by (auto simp: includes_sublist sublist_def toLowerCase_def)
  then obtain pre rest where s: "s = pre @ rest"
    and rest: "map toLowerCase_char t @ ss = map toLowerCase_char rest"
    unfolding map_eq_append_conv by blast
  from rest obtain u suf where u: "rest = u @ suf"
    and "map toLowerCase_char t = map toLowerCase_char u"
    unfolding append_eq_map_conv by blast
  then have "map toLowerCase_char u = map toLowerCase_char t" by simp
  then have "list_all2 same_letter u t" by (simp only: map_toLowerCase_eq_iff)
  with s u show "ci_substring t s"
    unfolding ci_substring_def by blast
next
  assume "ci_substring t s"
  then obtain pre u suf where s: "s = pre @ u @ suf"
    and "list_all2 same_letter u t"
    unfolding ci_substring_def by blast
  then have "map toLowerCase_char u = map toLowerCase_char t"
    by (simp only: map_toLowerCase_eq_iff)
  with s have "map toLowerCase_char s =
      map toLowerCase_char pre @ map toLowerCase_char t @ map toLowerCase_char suf"
    by simp
  then show "str_includes (toLowerCase s) (toLowerCase t)"
    unfolding includes_sublist sublist_def toLowerCase_def by blast
qed

lemma ci_substring_empty_text: "ci_substring t [] \<Longrightarrow> ci_substring t n"
proof -
  assume "ci_substring t []"
  then have "list_all2 same_letter [] t" by (auto simp: ci_substring_def)
  then have "t = []" by simp
  have "n = [] @ [] @ n" "list_all2 same_letter [] []" by simp_all
  with \<open>t = []\<close> show ?thesis unfolding ci_substring_def by blast
qed

lemma filter_js_total:
  "\<forall>x\<in>set xs. \<exists>b. f x = Inr b \<Longrightarrow>
   filter_js f xs = Inr (filter (\<lambda>x. f x = Inr True) xs)"
proof (induction xs)
  case Nil
  show ?case by simp
next
  case (Cons x xs)
  then obtain b where b: "f x = Inr b" by auto
  from Cons have "filter_js f xs = Inr (filter (\<lambda>x. f x = Inr True) xs)" by simp
  with b show ?case by simp
qed

lemma js_error_unique: "(e :: js_error) = TypeError"
  by (cases e) simp

lemma filter_js_throws:
  "x \<in> set xs \<Longrightarrow> f x = Inl e \<Longrightarrow> filter_js f xs = Inl TypeError"
proof (induction xs)
  case Nil
  then show ?case by simp
next
  case (Cons y ys)
  show ?case
  proof (cases "f y")
    case (Inl e')
    then show ?thesis using js_error_unique [of e'] by simp
  next
    case (Inr b)
    with Cons.prems have "x \<in> set ys" by auto
    with Cons have "filter_js f ys = Inl TypeError" by simp
    with Inr show ?thesis by simp
  qed
qed

text \<open>
  The guard on the location drops an empty location; nothing is lost, since an empty
  location contains only the empty search text, which every name contains.
\<close>

lemma location_guard:
  "(ci_substring t n \<or>
    (case location p of None \<Rightarrow> False
     | Some l \<Rightarrow> l \<noteq> [] \<and> str_includes (toLowerCase l) (toLowerCase t))) \<longleftrightarrow>
   (ci_substring t n \<or> (\<exists>l. location p = Some l \<and> ci_substring t l))"
proof (cases "location p")
  case None
  then show ?thesis by simp
next
  case (Some l)
  show ?thesis
  proof (cases "l = []")
    case True
    with Some show ?thesis
      using ci_substring_empty_text [of t n] by auto
  next
    case False
    with Some show ?thesis
      by (simp add: includes_ci_substring)
  qed
qed

lemma filter_callback_named:
  "name p = Some n \<Longrightarrow>
   filter_callback t s p = Inr ((s = ''all'' \<or> status p = Some s) \<and> spec_search t p)"
  unfolding filter_callback_def matchesSearch_def matchesFilter_def spec_search_def
  using location_guard [of t n p]
  by (auto simp: includes_ci_substring)

lemma filter_callback_nameless:
  "name p = None \<Longrightarrow> filter_callback t s p = Inl TypeError"
  by (simp add: filter_callback_def matchesSearch_def)

lemma filteredProjects_named:
  assumes "\<forall>p\<in>set C. name p \<noteq> None"
  shows "filteredProjects (Some C) t s =
         Inr (filter (\<lambda>p. (s = ''all'' \<or> status p = Some s) \<and> spec_search t p) C)"
proof -
  let ?f = "filter_callback t s"
  let ?P = "\<lambda>p. (s = ''all'' \<or> status p = Some s) \<and> spec_search t p"
  have each: "?f p = Inr (?P p)" if "p \<in> set C" for p
  proof -
    from that assms obtain n where "name p = Some n" by auto
    then show ?thesis by (rule filter_callback_named)
  qed
  then have "\<forall>p\<in>set C. \<exists>b. ?f p = Inr b" by blast
  then have "filter_js ?f C = Inr (filter (\<lambda>p. ?f p = Inr True) C)"
    by (rule filter_js_total)
  moreover have "filter (\<lambda>p. ?f p = Inr True) C = filter ?P C"
    by (rule filter_cong) (simp_all add: each)
  ultimately show ?thesis by (simp add: filteredProjects_def)
qed

lemma filteredProjects_nameless:
  assumes "p \<in> set C" "name p = None"
  shows "filteredProjects (Some C) t s = Inl TypeError"
proof -
  from assms(2) have "filter_callback t s p = Inl TypeError"
    by (rule filter_callback_nameless)
  with assms(1) have "filter_js (filter_callback t s) C = Inl TypeError"
    by (rule filter_js_throws)
  then show ?thesis by (simp add: filteredProjects_def)
qed

section \<open>Lemmas on the list updaters\<close>

lemma replace_item_length: "length (replace_item e r prev) = length prev"
  by (simp add: replace_item_def)

lemma replace_item_nth:
  "j < length prev \<Longrightarrow>
   replace_item e r prev ! j = (if item_id (prev ! j) = item_id e then r else prev ! j)"
  by (simp add: replace_item_def)

lemma replace_item_distinct:
  assumes "distinct (map item_id prev)" "i < length prev" "item_id (prev ! i) = item_id e"
  shows "replace_item e r prev = prev[i := r]"
proof (rule nth_equalityI)
  show "length (replace_item e r prev) = length (prev[i := r])"
    by (simp add: replace_item_length)
next
  fix j assume "j < length (replace_item e r prev)"
  then have j: "j < length prev" by (simp add: replace_item_length)
  have "item_id (prev ! j) = item_id e \<longleftrightarrow> j = i"
  proof
    assume "item_id (prev ! j) = item_id e"
    with assms j have "map item_id prev ! j = map item_id prev ! i" by simp
    moreover have "j < length (map item_id prev)" "i < length (map item_id prev)"
      using assms j by simp_all
    ultimately show "j = i"
      using assms(1) nth_eq_iff_index_eq by blast
  next
    assume "j = i" with assms show "item_id (prev ! j) = item_id e" by simp
  qed
  with j assms show "replace_item e r prev ! j = prev[i := r] ! j"
    by (simp add: replace_item_nth nth_list_update)
qed

lemma remove_item_distinct:
  assumes "distinct (map item_id prev)" "i < length prev" "item_id (prev ! i) = k"
  shows "remove_item k prev = take i prev @ drop (Suc i) prev"
  using assms
proof (induction prev arbitrary: i)
  case Nil
  then show ?case by simp
next
  case (Cons x xs)
  show ?case
  proof (cases i)
    case 0
    with Cons.prems have "item_id x = k" "k \<notin> item_id ` set xs" by auto
    then have "\<forall>y\<in>set xs. item_id y \<noteq> k" by blast
    then have "filter (\<lambda>item. item_id item \<noteq> k) xs = xs"
      by (simp add: filter_id_conv)
    with 0 \<open>item_id x = k\<close> show ?thesis by (simp add: remove_item_def)
  next
    case (Suc j)
    with Cons.prems have j: "j < length xs" "item_id (xs ! j) = k" "distinct (map item_id xs)"
      by auto
    from Cons.prems have "item_id x \<notin> item_id ` set xs" by simp
    moreover from j have "xs ! j \<in> set xs" by simp
    ultimately have "item_id x \<noteq> item_id (xs ! j)" by blast
    with j have "item_id x \<noteq> k" by simp
    moreover from Cons.IH j have "remove_item k xs = take j xs @ drop (Suc j) xs" by simp
    ultimately show ?thesis using Suc by (simp add: remove_item_def)
  qed
qed

lemma remove_item_absent:
  "k \<notin> item_id ` set prev \<Longrightarrow> remove_item k prev = prev"
  unfolding remove_item_def filter_id_conv by blast

section \<open>Lemmas on rounding to a double\<close>

lemma bit_length_upper: "n < 2 ^ bit_length n"
proof (induction n rule: bit_length.induct)
  case (1 n)
  show ?case
  proof (cases "n \<le> 0")
    case True
    then show ?thesis by (simp add: bit_length.simps)
  next
    case False
    with 1 have "n div 2 < 2 ^ bit_length (n div 2)" by simp
    then have "n < 2 * 2 ^ bit_length (n div 2)" by linarith
    with False show ?thesis by (simp add: bit_length.simps [of n])
  qed
qed

lemma bit_length_pos: "0 < n \<Longrightarrow> 0 < bit_length n"
  by (simp add: bit_length.simps [of n])

lemma bit_length_lower: "0 < n \<Longrightarrow> 2 ^ (bit_length n - 1) \<le> n"
proof (induction n rule: bit_length.induct)
  case (1 n)
  show ?case
  proof (cases "n div 2 \<le> 0")
    case True
    with 1 have "n = 1" by linarith
    then show ?thesis by (simp add: bit_length.simps)
  next
    case False
    with 1 have ih: "2 ^ (bit_length (n div 2) - 1) \<le> n div 2" by simp
    from False have pos: "0 < bit_length (n div 2)" by (simp add: bit_length_pos)
    have "bit_length n = Suc (bit_length (n div 2))"
      using 1 by (simp add: bit_length.simps [of n])
    then have "(2::int) ^ (bit_length n - 1) = 2 * 2 ^ (bit_length (n div 2) - 1)"
      using pos by (cases "bit_length (n div 2)") simp_all
    also have "\<dots> \<le> 2 * (n div 2)" using ih by simp
    also have "\<dots> \<le> n" by simp
    finally show ?thesis .
  qed
qed

lemma ilog2_lower:
  assumes "0 < q" shows "power_int 2 (ilog2 q) \<le> q"
proof (cases "1 \<le> q")
  case True
  define n where "n = \<lfloor>q\<rfloor>"
  from True have n: "0 < n" "of_int n \<le> q"
    unfolding n_def by (simp_all add: le_floor_iff)
  have e: "ilog2 q = int (bit_length n - 1)"
    using True bit_length_pos [OF n(1)] by (simp add: ilog2_def n_def)
  have "(2::rat) ^ (bit_length n - 1) = of_int (2 ^ (bit_length n - 1))" by simp
  also have "\<dots> \<le> of_int n" using bit_length_lower [OF n(1)] by (simp only: of_int_le_iff)
  also have "\<dots> \<le> q" by (rule n(2))
  finally show ?thesis by (simp add: e)
next
  case False
  define r where "r = 1 / q"
  define m where "m = \<lceil>r\<rceil> - 1"
  define k where "k = bit_length m"
  from False assms have r: "1 < r" by (simp add: r_def)
  have "r \<le> of_int \<lceil>r\<rceil>" by simp
  also have "of_int \<lceil>r\<rceil> = (of_int (m + 1) :: rat)" by (simp add: m_def)
  also have "\<dots> \<le> of_int (2 ^ k)"
  proof -
    have "m + 1 \<le> 2 ^ k" unfolding k_def using bit_length_upper [of m] by simp
    then show ?thesis by (simp only: of_int_le_iff)
  qed
  finally have "r \<le> 2 ^ k" by simp
  then have "1 / 2 ^ k \<le> q" using assms by (simp add: r_def field_simps)
  moreover have "ilog2 q = - int k"
    using False by (simp add: ilog2_def k_def m_def r_def)
  ultimately show ?thesis by (simp add: power_int_minus field_simps)
qed




lemma round_half_even_ge: "of_int k \<le> y \<Longrightarrow> k \<le> round_half_even y"
proof -
  assume "of_int k \<le> y"
  then have "k \<le> \<lfloor>y\<rfloor>" by (simp add: le_floor_iff)
  then show ?thesis unfolding round_half_even_def Let_def by auto
qed

lemma fl_0: "fl 0 = 0"
  by (simp add: fl_def)

lemma fl_minus: "fl (- q) = - fl q"
  by (simp add: fl_def Let_def)

lemma fl_scaled:
  assumes "q \<noteq> 0"
  shows "fl q = sgn q * of_int (round_half_even (\<bar>q\<bar> / power_int 2 (ilog2 \<bar>q\<bar> - 52)))
                * power_int 2 (ilog2 \<bar>q\<bar> - 52)"
  using assms by (simp add: fl_def Let_def)




lemma fl_pos:
  assumes "0 < q" shows "0 < fl q"
proof -
  define s :: rat where "s = power_int 2 (ilog2 \<bar>q\<bar> - 52)"
  have s: "0 < s" by (simp add: s_def)
  have "power_int 2 (ilog2 \<bar>q\<bar>) \<le> \<bar>q\<bar>" using assms by (intro ilog2_lower) simp
  moreover have "power_int (2::rat) (ilog2 \<bar>q\<bar>) = s * 2 ^ 52"
  proof -
    have "power_int (2::rat) (ilog2 \<bar>q\<bar> - 52) = power_int 2 (ilog2 \<bar>q\<bar>) / power_int 2 52"
      by (rule power_int_diff) simp
    then show ?thesis by (simp add: s_def)
  qed
  ultimately have "s * 2 ^ 52 \<le> \<bar>q\<bar>" by simp
  then have "2 ^ 52 \<le> \<bar>q\<bar> / s" using s by (simp add: field_simps)
  then have "of_int 1 \<le> \<bar>q\<bar> / s" by simp
  then have "1 \<le> round_half_even (\<bar>q\<bar> / s)" by (rule round_half_even_ge)
  then have "0 < (of_int (round_half_even (\<bar>q\<bar> / s)) :: rat)" by simp
  moreover have "fl q = of_int (round_half_even (\<bar>q\<bar> / s)) * s"
    using fl_scaled [of q] assms by (simp add: s_def)
  ultimately show ?thesis using s by simp
qed

lemma fl_nonneg_iff: "0 \<le> fl q \<longleftrightarrow> 0 \<le> q"
proof (cases "0 \<le> q")
  case True
  then show ?thesis using fl_pos [of q] by (cases "q = 0") (simp_all add: fl_0)
next
  case False
  then have "0 < - q" by simp
  then have "0 < fl (- q)" by (rule fl_pos)
  with False show ?thesis by (simp add: fl_minus)
qed

lemma fl_eq_0_iff: "fl q = 0 \<longleftrightarrow> q = 0"
proof
  assume z: "fl q = 0"
  show "q = 0"
  proof (rule ccontr)
    assume "q \<noteq> 0"
    then consider "0 < q" | "0 < - q" by linarith
    then show False
    proof cases
      case 1
      then have "0 < fl q" by (rule fl_pos)
      with z show False by simp
    next
      case 2
      then have "0 < fl (- q)" by (rule fl_pos)
      with z show False by (simp add: fl_minus)
    qed
  qed
qed (simp add: fl_0)

section \<open>Lemmas on the dashboard's totals and their display\<close>




















section \<open>Claims\<close>

subsection \<open>C1: what the Projects panel's filter returns\<close>



subsection \<open>C2: create prepends, edit replaces in place\<close>

text \<open>
  C2. A successful create, answered with the row \<open>R\<close>, puts \<open>R\<close> at the head of the local
  collection and keeps every earlier item in its order. A successful edit of item \<open>X\<close>,
  answered with \<open>R'\<close>, keeps the length of the list and every item with another id; when
  the ids of the list are distinct, as the server's ids are, the result is the list with
  \<open>R'\<close> at the position of \<open>X\<close> and nothing appended. Both hold for the generic panel
  (\<open>handleSubmit\<close>) and for the Projects panel (\<open>handleFormSubmit\<close>).
\<close>

theorem submit_prepends_and_replaces_in_place:
  fixes st :: "'a entity_scheme crud_state" and pst :: "project crud_state"
  shows
  "(api (POST endpoint (formData st)) = Resolved R \<longrightarrow>
      data (fst (handleSubmit title endpoint api (st\<lparr>editingItem := None\<rparr>))) = R # data st) \<and>
   (api (PUT endpoint (item_id X) (formData st)) = Resolved R' \<longrightarrow>
      length (data (fst (handleSubmit title endpoint api (st\<lparr>editingItem := Some X\<rparr>))))
        = length (data st) \<and>
      (\<forall>j<length (data st). item_id (data st ! j) \<noteq> item_id X \<longrightarrow>
         data (fst (handleSubmit title endpoint api (st\<lparr>editingItem := Some X\<rparr>))) ! j
           = data st ! j) \<and>
      (distinct (map item_id (data st)) \<and> i < length (data st) \<and>
       item_id (data st ! i) = item_id X \<longrightarrow>
         data (fst (handleSubmit title endpoint api (st\<lparr>editingItem := Some X\<rparr>)))
           = (data st)[i := R'])) \<and>
   (papi (POST ''/projects'' (formData pst)) = Resolved P \<longrightarrow>
      data (fst (handleFormSubmit papi (pst\<lparr>editingItem := None\<rparr>))) = P # data pst) \<and>
   (papi (PUT ''/projects'' (item_id Y) (formData pst)) = Resolved P' \<longrightarrow>
      length (data (fst (handleFormSubmit papi (pst\<lparr>editingItem := Some Y\<rparr>))))
        = length (data pst) \<and>
      (\<forall>j<length (data pst). item_id (data pst ! j) \<noteq> item_id Y \<longrightarrow>
         data (fst (handleFormSubmit papi (pst\<lparr>editingItem := Some Y\<rparr>))) ! j
           = data pst ! j) \<and>
      (distinct (map item_id (data pst)) \<and> k < length (data pst) \<and>
       item_id (data pst ! k) = item_id Y \<longrightarrow>
         data (fst (handleFormSubmit papi (pst\<lparr>editingItem := Some Y\<rparr>)))
           = (data pst)[k := P']))"
proof (intro conjI impI allI)
  assume "api (POST endpoint (formData st)) = Resolved R"
  then show "data (fst (handleSubmit title endpoint api (st\<lparr>editingItem := None\<rparr>))) = R # data st"
    by (simp add: handleSubmit_def prepend_item_def)
next
  assume "api (PUT endpoint (item_id X) (formData st)) = Resolved R'"
  then show "length (data (fst (handleSubmit title endpoint api (st\<lparr>editingItem := Some X\<rparr>))))
        = length (data st)"
    by (simp add: handleSubmit_def replace_item_length)
next
  fix j
  assume "api (PUT endpoint (item_id X) (formData st)) = Resolved R'"
    and "j < length (data st)" and "item_id (data st ! j) \<noteq> item_id X"
  then show "data (fst (handleSubmit title endpoint api (st\<lparr>editingItem := Some X\<rparr>))) ! j
           = data st ! j"
    by (simp add: handleSubmit_def replace_item_nth)
next
  assume "api (PUT endpoint (item_id X) (formData st)) = Resolved R'"
    and "distinct (map item_id (data st)) \<and> i < length (data st) \<and>
       item_id (data st ! i) = item_id X"
  then show "data (fst (handleSubmit title endpoint api (st\<lparr>editingItem := Some X\<rparr>)))
           = (data st)[i := R']"
    by (simp add: handleSubmit_def replace_item_distinct)
next
  assume "papi (POST ''/projects'' (formData pst)) = Resolved P"
  then show "data (fst (handleFormSubmit papi (pst\<lparr>editingItem := None\<rparr>))) = P # data pst"
    by (simp add: handleFormSubmit_def prepend_item_def)
next
  assume "papi (PUT ''/projects'' (item_id Y) (formData pst)) = Resolved P'"
  then show "length (data (fst (handleFormSubmit papi (pst\<lparr>editingItem := Some Y\<rparr>))))
        = length (data pst)"
    by (simp add: handleFormSubmit_def replace_item_length)
next
  fix j
  assume "papi (PUT ''/projects'' (item_id Y) (formData pst)) = Resolved P'"
    and "j < length (data pst)" and "item_id (data pst ! j) \<noteq> item_id Y"
  then show "data (fst (handleFormSubmit papi (pst\<lparr>editingItem := Some Y\<rparr>))) ! j
           = data pst ! j"
    by (simp add: handleFormSubmit_def replace_item_nth)
next
  assume "papi (PUT ''/projects'' (item_id Y) (formData pst)) = Resolved P'"
    and "distinct (map item_id (data pst)) \<and> k < length (data pst) \<and>
       item_id (data pst ! k) = item_id Y"
  then show "data (fst (handleFormSubmit papi (pst\<lparr>editingItem := Some Y\<rparr>)))
           = (data pst)[k := P']"
    by (simp add: handleFormSubmit_def replace_item_distinct)
qed

theorem submit_prepends_and_replaces_in_place_witness:
  "data (fst (handleSubmit ''Documents'' ''documents'' example_api
            (example_crud_state\<lparr>editingItem := None\<rparr>)))
     = [example_created, example_tower, example_bridge] \<and>
   data (fst (handleSubmit ''Documents'' ''documents'' example_api
            (example_crud_state\<lparr>editingItem := Some example_bridge\<rparr>)))
     = [example_tower, example_updated] \<and>
   data (fst (handleFormSubmit example_api (example_crud_state\<lparr>editingItem := None\<rparr>)))
     = [example_created, example_tower, example_bridge] \<and>
   data (fst (handleFormSubmit example_api
            (example_crud_state\<lparr>editingItem := Some example_bridge\<rparr>)))
     = [example_tower, example_updated]"
proof -
  have post: "example_api (POST path (formData example_crud_state)) = Resolved example_created"
    for path
    by (simp add: example_api_def)
  have put: "example_api (PUT path (item_id example_bridge) (formData example_crud_state))
             = Resolved example_updated" for path
    by (simp add: example_api_def)
  have ids: "distinct (map item_id (data example_crud_state)) \<and>
             (1::nat) < length (data example_crud_state) \<and>
             item_id (data example_crud_state ! 1) = item_id example_bridge"
    by (simp add: example_crud_state_def example_tower_def example_bridge_def)
  have list: "data example_crud_state = [example_tower, example_bridge]"
    by (simp add: example_crud_state_def)
  from submit_prepends_and_replaces_in_place
         [where st = example_crud_state and pst = example_crud_state and api = example_api
            and papi = example_api and endpoint = "''documents''" and title = "''Documents''"
            and R = example_created and R' = example_updated and X = example_bridge
            and P = example_created and P' = example_updated and Y = example_bridge
            and i = 1 and k = 1]
       post put ids list
  show ?thesis by simp
qed

subsection \<open>C3: the fields of the Projects panel's form\<close>

text \<open>
  C3, as stated: the form provides the fields name, description, location, budget, status
  and progress. The form that is rendered has no control for status and none for
  progress.
\<close>

theorem form_fields_counterexample:
  "\<not> set [''name'', ''description'', ''location'', ''budget'', ''status'', ''progress'']
       \<subseteq> set (map input_field project_form_inputs) \<and>
   ''status'' \<notin> set (map input_field project_form_inputs) \<and>
   ''progress'' \<notin> set (map input_field project_form_inputs)"
  by (simp add: project_form_inputs_def)

text \<open>
  C3, amended: the form provides controls for name, description, location and budget, and
  no others. Its data carry a status and a progress as well, \<open>planning\<close> and 0 in a new
  form, and no control of the form changes either of them. The budget control stores 0
  when its input does not parse as a number, and the parsed number otherwise.
\<close>

theorem form_fields:
  "map input_field project_form_inputs = [''name'', ''description'', ''location'', ''budget''] \<and>
   dom projectFormData_initial =
     {''name'', ''description'', ''budget'', ''location'', ''status'', ''progress''} \<and>
   projectFormData_initial ''status'' = Some (Str ''planning'') \<and>
   projectFormData_initial ''progress'' = Some (Num 0) \<and>
   onChange parseFloat i v fd ''status'' = fd ''status'' \<and>
   onChange parseFloat i v fd ''progress'' = fd ''progress'' \<and>
   (parseFloat v = None \<longrightarrow> onChange parseFloat BudgetInput v fd ''budget'' = Some (Num 0)) \<and>
   (parseFloat v = Some x \<longrightarrow> onChange parseFloat BudgetInput v fd ''budget'' = Some (Num x))"
proof (intro conjI impI)
  show "map input_field project_form_inputs = [''name'', ''description'', ''location'', ''budget'']"
    by (simp add: project_form_inputs_def)
  show "dom projectFormData_initial =
     {''name'', ''description'', ''budget'', ''location'', ''status'', ''progress''}"
    by (auto simp: projectFormData_initial_def)
  show "projectFormData_initial ''status'' = Some (Str ''planning'')"
    by (simp add: projectFormData_initial_def)
  show "projectFormData_initial ''progress'' = Some (Num 0)"
    by (simp add: projectFormData_initial_def)
  show "onChange parseFloat i v fd ''status'' = fd ''status''"
    by (cases i) simp_all
  show "onChange parseFloat i v fd ''progress'' = fd ''progress''"
    by (cases i) simp_all
next
  assume "parseFloat v = None"
  then show "onChange parseFloat BudgetInput v fd ''budget'' = Some (Num 0)" by simp
next
  assume "parseFloat v = Some x"
  then show "onChange parseFloat BudgetInput v fd ''budget'' = Some (Num x)" by simp
qed

theorem form_fields_witness:
  "onChange example_parseFloat BudgetInput ''12o'' projectFormData_initial ''budget''
     = Some (Num 0) \<and>
   onChange example_parseFloat BudgetInput ''1200000'' projectFormData_initial ''budget''
     = Some (Num 1200000) \<and>
   onChange example_parseFloat BudgetInput ''1200000'' projectFormData_initial ''status''
     = Some (Str ''planning'')"
proof -
  have nan: "example_parseFloat ''12o'' = None"
    and num: "example_parseFloat ''1200000'' = Some 1200000"
    by (simp_all add: example_parseFloat_def)
  note bad = form_fields
         [where parseFloat = example_parseFloat and v = "''12o''" and x = 0
            and fd = projectFormData_initial and i = BudgetInput]
  note good = form_fields
         [where parseFloat = example_parseFloat and v = "''1200000''" and x = 1200000
            and fd = projectFormData_initial and i = BudgetInput]
  from bad nan have a: "onChange example_parseFloat BudgetInput ''12o'' projectFormData_initial
                          ''budget'' = Some (Num 0)"
    by (elim conjE) simp
  from good num have b: "onChange example_parseFloat BudgetInput ''1200000''
                           projectFormData_initial ''budget'' = Some (Num 1200000)"
    by (elim conjE) simp
  from good have c: "onChange example_parseFloat BudgetInput ''1200000''
                       projectFormData_initial ''status'' = Some (Str ''planning'')"
    by (elim conjE) simp
  from a b c show ?thesis by (intro conjI)
qed

subsection \<open>C4: the message of a failed fetch\<close>

text \<open>
  C4. When the fetch of the hook is rejected, the hook's error becomes the message chosen
  from the rejection and its data stay as they were. A response of status 401 gives the
  session-expired message; status 422 gives the invalid-format message, which names the
  endpoint; every other status, and a failure without a response, gives the generic
  message, which names the endpoint and ends with the server's error string when the
  response carries a non-empty one, and with the retry prompt otherwise.
\<close>

theorem fetch_failure_message:
  "fetch_error_message e (Some (ErrResponse 401 body)) =
     ''Authentication failed. Your session may have expired.'' \<and>
   fetch_error_message e (Some (ErrResponse 422 body)) =
     ''Invalid request format for '' @ e @ ''.'' \<and>
   (code \<noteq> 401 \<and> code \<noteq> 422 \<and> s \<noteq> [] \<longrightarrow>
      fetch_error_message e (Some (ErrResponse code (Some s))) =
        ''Failed to fetch '' @ e @ ''. '' @ s) \<and>
   (code \<noteq> 401 \<and> code \<noteq> 422 \<longrightarrow>
      fetch_error_message e (Some (ErrResponse code None)) =
        ''Failed to fetch '' @ e @ ''. Please try again.'' \<and>
      fetch_error_message e (Some (ErrResponse code (Some []))) =
        ''Failed to fetch '' @ e @ ''. Please try again.'') \<and>
   fetch_error_message e None = ''Failed to fetch '' @ e @ ''. Please try again.'' \<and>
   (e \<noteq> [] \<and> api (GET e) = Rejected err \<longrightarrow>
      fst (useData_effect api (Some e) st) =
        st\<lparr>error := Some (fetch_error_message e err), loading := False\<rparr>)"
  by (simp add: fetch_error_message_def useData_effect_def)

theorem fetch_failure_message_witness:
  "fetch_error_message ''projects'' (Some (ErrResponse 500 (Some ''database is down''))) =
     ''Failed to fetch projects. database is down'' \<and>
   fetch_error_message ''projects'' (Some (ErrResponse 500 None)) =
     ''Failed to fetch projects. Please try again.'' \<and>
   fetch_error_message ''bids'' (Some (ErrResponse 422 None)) =
     ''Invalid request format for bids.'' \<and>
   useData_effect (\<lambda>rq. Rejected (Some (ErrResponse 401 None))) (Some ''projects'')
       (useData_init :: project useData_state) =
     (\<lparr>data = [], loading = False,
       error = Some ''Authentication failed. Your session may have expired.''\<rparr>,
      [Call (GET ''projects''), ConsoleError ''Error fetching projects:''])"
proof -
  have run: "snd (useData_effect (\<lambda>rq. Rejected (Some (ErrResponse 401 None))) (Some ''projects'')
                    (useData_init :: project useData_state)) =
             [Call (GET ''projects''), ConsoleError ''Error fetching projects:'']"
    by (simp add: useData_effect_def)
  from fetch_failure_message
         [where e = "''projects''" and code = 500 and s = "''database is down''"
            and body = None and api = "\<lambda>rq. Rejected (Some (ErrResponse 401 None))"
            and err = "Some (ErrResponse 401 None)"
            and st = "useData_init :: project useData_state"]
       fetch_failure_message
         [where e = "''bids''" and code = 404 and s = "''not found''"
            and body = None and api = "\<lambda>rq. Rejected None" and err = None
            and st = "useData_init :: project useData_state"]
       run
  show ?thesis by (simp add: useData_init_def prod_eq_iff)
qed

subsection \<open>C5: delete removes the item with the given id, after confirmation only\<close>

text \<open>
  C5. When the user declines the confirmation, the delete handler makes no network call
  and leaves the state as it was. When the user confirms and the call succeeds, the
  collection becomes the old one without the items of id \<open>k\<close>: with distinct ids that is
  the old list with the one element of id \<open>k\<close> taken out, every other element kept in
  place and order, and a list without that id is left unchanged. Whenever a call is
  made, the user has confirmed, the call is the delete of \<open>k\<close>, and the confirmation comes
  first. The same holds for the Projects panel (\<open>handleDeleteProject\<close>).
\<close>

theorem delete_removes_only_after_confirmation:
  fixes st :: "'a entity_scheme crud_state" and pst :: "project crud_state"
    and prev :: "'a entity_scheme list"
  shows
  "(\<not> decline delete_item_prompt \<longrightarrow>
      handleDelete title endpoint decline api k st = (st, [Confirm delete_item_prompt])) \<and>
   (accept delete_item_prompt \<and> api (DELETE endpoint k) = Resolved r \<longrightarrow>
      handleDelete title endpoint accept api k st =
        (st\<lparr>data := remove_item k (data st)\<rparr>,
         [Confirm delete_item_prompt, Call (DELETE endpoint k)])) \<and>
   (Call rq \<in> set (snd (handleDelete title endpoint answer api k st)) \<longrightarrow>
      answer delete_item_prompt \<and> rq = DELETE endpoint k \<and>
      take 2 (snd (handleDelete title endpoint answer api k st)) =
        [Confirm delete_item_prompt, Call rq]) \<and>
   (\<not> decline delete_project_prompt \<longrightarrow>
      handleDeleteProject decline api k pst = (pst, [Confirm delete_project_prompt])) \<and>
   (accept delete_project_prompt \<and> api (DELETE ''/projects'' k) = Resolved r \<longrightarrow>
      handleDeleteProject accept api k pst =
        (pst\<lparr>data := remove_item k (data pst)\<rparr>,
         [Confirm delete_project_prompt, Call (DELETE ''/projects'' k)])) \<and>
   (Call rq' \<in> set (snd (handleDeleteProject answer api k pst)) \<longrightarrow>
      answer delete_project_prompt \<and> rq' = DELETE ''/projects'' k \<and>
      take 2 (snd (handleDeleteProject answer api k pst)) =
        [Confirm delete_project_prompt, Call rq']) \<and>
   (distinct (map item_id prev) \<and> i < length prev \<and> item_id (prev ! i) = k \<longrightarrow>
      remove_item k prev = take i prev @ drop (Suc i) prev) \<and>
   (k \<notin> item_id ` set prev \<longrightarrow> remove_item k prev = prev)"
proof (intro conjI impI)
  assume "\<not> decline delete_item_prompt"
  then show "handleDelete title endpoint decline api k st = (st, [Confirm delete_item_prompt])"
    by (simp add: handleDelete_def)
next
  assume "accept delete_item_prompt \<and> api (DELETE endpoint k) = Resolved r"
  then show "handleDelete title endpoint accept api k st =
        (st\<lparr>data := remove_item k (data st)\<rparr>,
         [Confirm delete_item_prompt, Call (DELETE endpoint k)])"
    by (simp add: handleDelete_def)
next
  assume c: "Call rq \<in> set (snd (handleDelete title endpoint answer api k st))"
  then show "answer delete_item_prompt"
    by (simp add: handleDelete_def split: if_splits)
  from c show "rq = DELETE endpoint k"
    by (auto simp: handleDelete_def split: if_splits response.splits)
  with c show "take 2 (snd (handleDelete title endpoint answer api k st)) =
        [Confirm delete_item_prompt, Call rq]"
    by (auto simp: handleDelete_def split: if_splits response.splits)
next
  assume "\<not> decline delete_project_prompt"
  then show "handleDeleteProject decline api k pst = (pst, [Confirm delete_project_prompt])"
    by (simp add: handleDeleteProject_def)
next
  assume "accept delete_project_prompt \<and> api (DELETE ''/projects'' k) = Resolved r"
  then show "handleDeleteProject accept api k pst =
        (pst\<lparr>data := remove_item k (data pst)\<rparr>,
         [Confirm delete_project_prompt, Call (DELETE ''/projects'' k)])"
    by (simp add: handleDeleteProject_def)
next
  assume c: "Call rq' \<in> set (snd (handleDeleteProject answer api k pst))"
  then show "answer delete_project_prompt"
    by (simp add: handleDeleteProject_def split: if_splits)
  from c show "rq' = DELETE ''/projects'' k"
    by (auto simp: handleDeleteProject_def split: if_splits response.splits)
  with c show "take 2 (snd (handleDeleteProject answer api k pst)) =
        [Confirm delete_project_prompt, Call rq']"
    by (auto simp: handleDeleteProject_def split: if_splits response.splits)
next
  assume "distinct (map item_id prev) \<and> i < length prev \<and> item_id (prev ! i) = k"
  then show "remove_item k prev = take i prev @ drop (Suc i) prev"
    by (simp add: remove_item_distinct)
next
  assume "k \<notin> item_id ` set prev"
  then show "remove_item k prev = prev"
    by (rule remove_item_absent)
qed

theorem delete_removes_only_after_confirmation_witness:
  "handleDelete ''Documents'' ''documents'' (\<lambda>prompt. False) example_api 1 example_crud_state
     = (example_crud_state, [Confirm delete_item_prompt]) \<and>
   data (fst (handleDelete ''Documents'' ''documents'' (\<lambda>prompt. True) example_api 1
                example_crud_state)) = [example_bridge] \<and>
   snd (handleDelete ''Documents'' ''documents'' (\<lambda>prompt. True) example_api 1
          example_crud_state) = [Confirm delete_item_prompt, Call (DELETE ''documents'' 1)] \<and>
   handleDeleteProject (\<lambda>prompt. False) example_api 1 example_crud_state
     = (example_crud_state, [Confirm delete_project_prompt]) \<and>
   data (fst (handleDeleteProject (\<lambda>prompt. True) example_api 1 example_crud_state))
     = [example_bridge] \<and>
   remove_item 1 [example_tower, example_bridge] = [example_bridge] \<and>
   remove_item 7 [example_tower, example_bridge] = [example_tower, example_bridge]"
proof -
  have del: "example_api (DELETE path 1) = Resolved example_created" for path
    by (simp add: example_api_def)
  have ids: "distinct (map item_id [example_tower, example_bridge]) \<and>
             (0::nat) < length [example_tower, example_bridge] \<and>
             item_id ([example_tower, example_bridge] ! 0) = 1"
    by (simp add: example_tower_def example_bridge_def)
  have absent: "7 \<notin> item_id ` set [example_tower, example_bridge]"
    by (simp add: example_tower_def example_bridge_def)
  have list: "data example_crud_state = [example_tower, example_bridge]"
    by (simp add: example_crud_state_def)
  have called: "Call (DELETE ''documents'' 1) \<in>
      set (snd (handleDelete ''Documents'' ''documents'' (\<lambda>prompt. True) example_api 1
                  example_crud_state))"
    by (simp add: handleDelete_def del)
  have called': "Call (DELETE ''/projects'' 1) \<in>
      set (snd (handleDeleteProject (\<lambda>prompt. True) example_api 1 example_crud_state))"
    by (simp add: handleDeleteProject_def del)
  note declined = delete_removes_only_after_confirmation
         [where decline = "\<lambda>prompt. False" and accept = "\<lambda>prompt. True"
            and answer = "\<lambda>prompt. True" and api = example_api and k = 1
            and st = example_crud_state and pst = example_crud_state
            and title = "''Documents''" and endpoint = "''documents''"
            and r = example_created and rq = "DELETE ''documents'' 1"
            and rq' = "DELETE ''/projects'' 1"
            and prev = "[example_tower, example_bridge]" and i = 0]
  note absent_case = delete_removes_only_after_confirmation
         [where decline = "\<lambda>prompt. False" and accept = "\<lambda>prompt. True"
            and answer = "\<lambda>prompt. True" and api = example_api and k = 7
            and st = example_crud_state and pst = example_crud_state
            and prev = "[example_tower, example_bridge]"]
  from declined absent_case del ids absent list called called'
  show ?thesis by simp
qed

subsection \<open>C6: a failed mutation changes nothing and is reported\<close>

text \<open>
  C6. When the network call of a create, an update or a confirmed delete is rejected, the
  handler returns the state it was given, unchanged: the cached collection is as before,
  the form is as open as it was and still holds what the user typed, so the attempt can
  be repeated. The handler ends normally, and the last thing it does is raise an alert.
  This holds for the generic panel and for the Projects panel.
\<close>

theorem failed_mutation_leaves_state:
  fixes st :: "'a entity_scheme crud_state" and pst :: "project crud_state"
  shows
  "(api (POST endpoint (formData st)) = Rejected err \<longrightarrow>
      handleSubmit title endpoint api (st\<lparr>editingItem := None\<rparr>) =
        (st\<lparr>editingItem := None\<rparr>,
         [Call (POST endpoint (formData st)),
          ConsoleError (''Failed to save '' @ title @ '':''),
          Alert (''Error: Could not save the '' @ butlast title @ ''.'')])) \<and>
   (api (PUT endpoint (item_id X) (formData st)) = Rejected err \<longrightarrow>
      handleSubmit title endpoint api (st\<lparr>editingItem := Some X\<rparr>) =
        (st\<lparr>editingItem := Some X\<rparr>,
         [Call (PUT endpoint (item_id X) (formData st)),
          ConsoleError (''Failed to save '' @ title @ '':''),
          Alert (''Error: Could not save the '' @ butlast title @ ''.'')])) \<and>
   (accept delete_item_prompt \<and> dapi (DELETE endpoint k) = Rejected err \<longrightarrow>
      handleDelete title endpoint accept dapi k st =
        (st,
         [Confirm delete_item_prompt, Call (DELETE endpoint k),
          ConsoleError (''Failed to delete '' @ title @ '':''),
          Alert (''Error: Could not delete the '' @ butlast title @ ''.'')])) \<and>
   (papi (POST ''/projects'' (formData pst)) = Rejected err \<longrightarrow>
      handleFormSubmit papi (pst\<lparr>editingItem := None\<rparr>) =
        (pst\<lparr>editingItem := None\<rparr>,
         [Call (POST ''/projects'' (formData pst)),
          ConsoleError ''Failed to save project:'',
          Alert ''Error: Could not save the project.''])) \<and>
   (papi (PUT ''/projects'' (item_id Y) (formData pst)) = Rejected err \<longrightarrow>
      handleFormSubmit papi (pst\<lparr>editingItem := Some Y\<rparr>) =
        (pst\<lparr>editingItem := Some Y\<rparr>,
         [Call (PUT ''/projects'' (item_id Y) (formData pst)),
          ConsoleError ''Failed to save project:'',
          Alert ''Error: Could not save the project.''])) \<and>
   (accept delete_project_prompt \<and> dapi (DELETE ''/projects'' k) = Rejected err \<longrightarrow>
      handleDeleteProject accept dapi k pst =
        (pst,
         [Confirm delete_project_prompt, Call (DELETE ''/projects'' k),
          ConsoleError ''Failed to delete project:'',
          Alert ''Error: Could not delete the project.'']))"
  by (simp add: handleSubmit_def handleDelete_def handleFormSubmit_def handleDeleteProject_def
      singular_def)

theorem failed_mutation_leaves_state_witness:
  "fst (handleSubmit ''Bids'' ''bids'' failing_api (example_crud_state\<lparr>editingItem := None\<rparr>))
     = example_crud_state\<lparr>editingItem := None\<rparr> \<and>
   snd (handleSubmit ''Bids'' ''bids'' failing_api (example_crud_state\<lparr>editingItem := None\<rparr>))
     = [Call (POST ''bids'' (formData example_crud_state)),
        ConsoleError ''Failed to save Bids:'', Alert ''Error: Could not save the Bid.''] \<and>
   fst (handleSubmit ''Bids'' ''bids'' failing_api
          (example_crud_state\<lparr>editingItem := Some example_bridge\<rparr>))
     = example_crud_state\<lparr>editingItem := Some example_bridge\<rparr> \<and>
   fst (handleDelete ''Bids'' ''bids'' (\<lambda>prompt. True) (failing_api :: request \<Rightarrow> unit response)
          2 example_crud_state) = example_crud_state \<and>
   last (snd (handleDelete ''Bids'' ''bids'' (\<lambda>prompt. True)
                (failing_api :: request \<Rightarrow> unit response) 2 example_crud_state))
     = Alert ''Error: Could not delete the Bid.'' \<and>
   fst (handleFormSubmit failing_api (example_crud_state\<lparr>editingItem := None\<rparr>))
     = example_crud_state\<lparr>editingItem := None\<rparr> \<and>
   fst (handleFormSubmit failing_api (example_crud_state\<lparr>editingItem := Some example_bridge\<rparr>))
     = example_crud_state\<lparr>editingItem := Some example_bridge\<rparr> \<and>
   handleDeleteProject (\<lambda>prompt. True) (failing_api :: request \<Rightarrow> unit response) 2
     example_crud_state =
     (example_crud_state,
      [Confirm delete_project_prompt, Call (DELETE ''/projects'' 2),
       ConsoleError ''Failed to delete project:'',
       Alert ''Error: Could not delete the project.''])"
proof -
  from failed_mutation_leaves_state
         [where api = failing_api and papi = failing_api
            and dapi = "failing_api :: request \<Rightarrow> unit response"
            and accept = "\<lambda>prompt. True"
            and err = "Some (ErrResponse 500 (Some ''database is down''))"
            and st = example_crud_state and pst = example_crud_state
            and title = "''Bids''" and endpoint = "''bids''"
            and X = example_bridge and Y = example_bridge and k = 2]
  show ?thesis by (simp add: failing_api_def)
qed

subsection \<open>C7: without authentication, the login panel and no fetch\<close>

text \<open>
  C7. Whenever the authenticated flag is false, the root component renders the login panel
  alone, whatever the active section, the selected project and the cached projects are;
  the fetch hook is given no endpoint, makes no network call, keeps its data and clears
  its loading flag.
\<close>

theorem unauthenticated_login_no_fetch:
  assumes "\<not> isAuthenticated st"
  shows "App st projects = LoginForm_element \<and>
         App_endpoint st = None \<and>
         useData_effect api (App_endpoint st) hook = (hook\<lparr>loading := False\<rparr>, [])"
  using assms by (simp add: App_def App_endpoint_def useData_effect_def)

theorem unauthenticated_login_no_fetch_witness:
  "\<not> isAuthenticated example_app_state \<and>
   App example_app_state [example_tower, example_bridge] = LoginForm_element \<and>
   useData_effect example_fetch_api (App_endpoint example_app_state)
       (useData_init :: project useData_state) =
     (\<lparr>data = [], loading = False, error = None\<rparr>, [])"
proof -
  have unauth: "\<not> isAuthenticated example_app_state"
    by (simp add: example_app_state_def)
  note ex = unauthenticated_login_no_fetch
         [OF unauth, where projects = "[example_tower, example_bridge]"
            and api = example_fetch_api and hook = "useData_init :: project useData_state"]
  from ex have login: "App example_app_state [example_tower, example_bridge] = LoginForm_element"
    by (rule conjunct1)
  from ex have "useData_effect example_fetch_api (App_endpoint example_app_state)
                  (useData_init :: project useData_state) =
                (useData_init\<lparr>loading := False\<rparr>, [])"
    by (elim conjE)
  then have quiet: "useData_effect example_fetch_api (App_endpoint example_app_state)
                      (useData_init :: project useData_state) =
                    (\<lparr>data = [], loading = False, error = None\<rparr>, [])"
    by (simp add: useData_init_def)
  from unauth login quiet show ?thesis by (intro conjI)
qed

subsection \<open>C8: the dashboard's count and totals\<close>




subsection \<open>C9: zero counts as favourable\<close>

text \<open>
  C9. In the project detail panel the variance line is green exactly when the computed
  variance, budget minus actual cost, is at least 0, which is the case exactly when the
  actual cost does not exceed the budget; a variance of exactly zero, budget equal to
  actual cost, is green. A change order's row is marked green exactly when its amount is
  at least 0, so an amount of exactly zero is green too. In both places the test is
  \<open>\<ge> 0\<close>, not \<open>> 0\<close>.
\<close>

theorem zero_is_favorable:
  "(budget p = Some b \<and> actual_cost p = Some c \<longrightarrow>
      (variance_class p = Inr ''text-green-600'' \<longleftrightarrow> 0 \<le> js_sub b c) \<and>
      (variance_class p = Inr ''text-red-600'' \<longleftrightarrow> js_sub b c < 0) \<and>
      (0 \<le> js_sub b c \<longleftrightarrow> c \<le> b) \<and>
      (js_sub b c = 0 \<longleftrightarrow> b = c)) \<and>
   (budget p = Some b \<and> actual_cost p = Some b \<longrightarrow>
      js_sub b b = 0 \<and> variance_class p = Inr ''text-green-600'') \<and>
   (change_order_class co = ''border-l-4 border-green-500'' \<longleftrightarrow> 0 \<le> amount co) \<and>
   (change_order_class co = ''border-l-4 border-red-500'' \<longleftrightarrow> amount co < 0) \<and>
   (amount co = 0 \<longrightarrow> change_order_class co = ''border-l-4 border-green-500'')"
proof (intro conjI impI)
  assume p: "budget p = Some b \<and> actual_cost p = Some c"
  then show "variance_class p = Inr ''text-green-600'' \<longleftrightarrow> 0 \<le> js_sub b c"
    by (simp add: variance_class_def)
  from p show "variance_class p = Inr ''text-red-600'' \<longleftrightarrow> js_sub b c < 0"
    by (auto simp: variance_class_def)
  show "0 \<le> js_sub b c \<longleftrightarrow> c \<le> b"
    by (simp add: js_sub_def fl_nonneg_iff)
  show "js_sub b c = 0 \<longleftrightarrow> b = c"
    by (simp add: js_sub_def fl_eq_0_iff)
next
  assume p: "budget p = Some b \<and> actual_cost p = Some b"
  show "js_sub b b = 0" by (simp add: js_sub_def fl_0)
  with p show "variance_class p = Inr ''text-green-600''"
    by (simp add: variance_class_def)
next
  show "change_order_class co = ''border-l-4 border-green-500'' \<longleftrightarrow> 0 \<le> amount co"
    by (simp add: change_order_class_def)
  show "change_order_class co = ''border-l-4 border-red-500'' \<longleftrightarrow> amount co < 0"
    by (auto simp: change_order_class_def)
next
  assume "amount co = 0"
  then show "change_order_class co = ''border-l-4 border-green-500''"
    by (simp add: change_order_class_def)
qed

theorem zero_is_favorable_witness:
  "variance_class example_on_budget = Inr ''text-green-600'' \<and>
   js_sub 1500000 1500000 = 0 \<and>
   variance_class example_tower = Inr ''text-green-600'' \<and>
   change_order_class example_change_order = ''border-l-4 border-green-500''"
proof -
  have on_budget: "budget example_on_budget = Some 1500000 \<and>
                   actual_cost example_on_budget = Some 1500000"
    by (simp add: example_on_budget_def example_tower_def)
  have tower: "budget example_tower = Some 1500000 \<and> actual_cost example_tower = Some 700000"
    by (simp add: example_tower_def)
  have zero: "amount example_change_order = 0"
    by (simp add: example_change_order_def)
  from zero_is_favorable
         [where p = example_on_budget and b = 1500000 and c = 1500000
            and co = example_change_order]
       zero_is_favorable
         [where p = example_tower and b = 1500000 and c = 700000
            and co = example_change_order]
       on_budget tower zero
  show ?thesis by simp
qed

subsection \<open>C10: the filter needs every project to have a name\<close>

text \<open>
  C10. The filter returns a list exactly when every project of the collection has a name.
  A project without a name makes the whole filter raise a TypeError (it is not skipped as
  a non-match), whatever its location and status; a project without a location is
  tolerated: it is matched on its name alone.
\<close>

theorem filteredProjects_needs_names:
  "((\<exists>out. filteredProjects (Some C) t s = Inr out) \<longleftrightarrow> (\<forall>p\<in>set C. name p \<noteq> None)) \<and>
   ((\<exists>p\<in>set C. name p = None) \<longrightarrow> filteredProjects (Some C) t s = Inl TypeError) \<and>
   (name q = Some n \<and> location q = None \<longrightarrow>
      matchesSearch t q = Inr (str_includes (toLowerCase n) (toLowerCase t)))"
proof (intro conjI)
  show "(\<exists>out. filteredProjects (Some C) t s = Inr out) \<longleftrightarrow> (\<forall>p\<in>set C. name p \<noteq> None)"
  proof
    assume ok: "\<exists>out. filteredProjects (Some C) t s = Inr out"
    show "\<forall>p\<in>set C. name p \<noteq> None"
    proof (rule ccontr)
      assume "\<not> (\<forall>p\<in>set C. name p \<noteq> None)"
      then obtain p where "p \<in> set C" "name p = None" by blast
      then have "filteredProjects (Some C) t s = Inl TypeError"
        by (rule filteredProjects_nameless)
      with ok show False by simp
    qed
  next
    assume "\<forall>p\<in>set C. name p \<noteq> None"
    then show "\<exists>out. filteredProjects (Some C) t s = Inr out"
      using filteredProjects_named [of C] by blast
  qed
next
  show "(\<exists>p\<in>set C. name p = None) \<longrightarrow> filteredProjects (Some C) t s = Inl TypeError"
    using filteredProjects_nameless [of _ C] by blast
next
  show "name q = Some n \<and> location q = None \<longrightarrow>
        matchesSearch t q = Inr (str_includes (toLowerCase n) (toLowerCase t))"
    by (simp add: matchesSearch_def)
qed

theorem filteredProjects_needs_names_witness:
  "filteredProjects (Some [example_bridge, example_nameless]) ''tower'' ''all'' = Inl TypeError \<and>
   (\<exists>out. filteredProjects (Some [example_bridge]) ''tower'' ''all'' = Inr out) \<and>
   matchesSearch ''BRIDGE'' example_bridge = Inr True"
proof -
  have nameless: "\<exists>p\<in>set [example_bridge, example_nameless]. name p = None"
    by (simp add: example_nameless_def)
  have named: "\<forall>p\<in>set [example_bridge]. name p \<noteq> None"
    by (simp add: example_bridge_def)
  have bridge: "name example_bridge = Some ''River Bridge'' \<and> location example_bridge = None"
    by (simp add: example_bridge_def)
  have inc: "str_includes (toLowerCase ''River Bridge'') (toLowerCase ''BRIDGE'')"
    by (simp add: toLowerCase_def toLowerCase_char_def)
  from filteredProjects_needs_names
         [where C = "[example_bridge, example_nameless]" and t = "''tower''" and s = "''all''"
            and q = example_bridge and n = "''River Bridge''"]
       filteredProjects_needs_names
         [where C = "[example_bridge]" and t = "''tower''" and s = "''all''"
            and q = example_bridge and n = "''River Bridge''"]
       filteredProjects_needs_names
         [where C = "[example_bridge]" and t = "''BRIDGE''" and s = "''all''"
            and q = example_bridge and n = "''River Bridge''"]
       nameless named bridge inc
  show ?thesis by simp
qed

end
